theory Spec2Isabelle
  imports Main
begin

section \<open>The request gate of \<open>src/middleware.ts\<close>\<close>

text \<open>
  The repository's only piece of decision logic is the function \<open>middleware\<close> of
  \<open>src/middleware.ts\<close>. It reads the path of the request, classifies it with two
  prefix tests, reads the \<open>session\<close> cookie and returns one of three responses:
  \<open>NextResponse.next()\<close>, a 401 response with a JSON body, or a redirect to the
  login page. This theory embeds that function and settles the statements made about it.
\<close>

subsection \<open>Strings\<close>

text \<open>
  \<open>String.prototype.startsWith\<close>: \<open>startsWith s p\<close> is the source's
  \<open>s.startsWith(p)\<close>, a comparison of the leading code units of \<open>s\<close> with \<open>p\<close>.
  A URL path name is ASCII (the URL parser percent-encodes everything else), so a path is
  a list of \<open>char\<close>.
\<close>

fun startsWith :: "string \<Rightarrow> string \<Rightarrow> bool" where
  "startsWith s [] = True"
| "startsWith [] (c # cs) = False"
| "startsWith (x # xs) (c # cs) = (x = c \<and> startsWith xs cs)"

text \<open>
  \<open>JSON.stringify\<close> on the values the source gives it: an object literal whose
  properties are strings. Properties are written in insertion order, without white space.
  Of the escapes of a JSON string, the quotation mark and the backslash are modelled; the
  two strings of the source hold letters and an underscore only.
\<close>

datatype json = JString string | JObject "(string \<times> json) list"

definition JSON_escape :: "char \<Rightarrow> string" where
  "JSON_escape c =
     (if c = CHR 0x22 then [CHR 0x5C, CHR 0x22]
      else if c = CHR 0x5C then [CHR 0x5C, CHR 0x5C]
      else [c])"

definition JSON_quote :: "string \<Rightarrow> string" where
  "JSON_quote s = [CHR 0x22] @ concat (map JSON_escape s) @ [CHR 0x22]"

fun join_with :: "string \<Rightarrow> string list \<Rightarrow> string" where
  "join_with sep [] = []"
| "join_with sep [x] = x"
| "join_with sep (x # y # ys) = x @ sep @ join_with sep (y # ys)"

fun JSON_stringify :: "json \<Rightarrow> string" where
  "JSON_stringify (JString s) = JSON_quote s"
| "JSON_stringify (JObject kvs) =
     ''{'' @ join_with '','' (map (\<lambda>(k, v). JSON_quote k @ '':'' @ JSON_stringify v) kvs) @ ''}''"

subsection \<open>Requests and responses\<close>

text \<open>
  A URL as far as the gate looks at it: the origin (scheme, host and port), the path name
  and the query. \<open>URL_new p base\<close> is \<open>new URL(p, base)\<close> for a \<open>p\<close> that is an
  absolute path such as \<open>/admin/login\<close>: the result keeps the origin of \<open>base\<close>, has
  the path \<open>p\<close> and no query.
\<close>

record url =
  origin :: string
  pathname :: string
  search :: string

definition URL_new :: "string \<Rightarrow> url \<Rightarrow> url" where
  "URL_new p base = \<lparr>origin = origin base, pathname = p, search = []\<rparr>"

text \<open>
  The request as the gate reads it. Of its URL, \<open>pathname\<close> is
  \<open>request.nextUrl.pathname\<close>, the path that the gate classifies, and \<open>origin\<close> is
  the origin of \<open>request.url\<close>, the one part of it that
  \<open>new URL('/admin/login', request.url)\<close> keeps. The cookies are a map from cookie name
  to cookie value.
\<close>

record request =
  url :: url
  cookies :: "string \<rightharpoonup> string"

text \<open>
  What the gate returns, one constructor for each of the three calls of the source:
  \<open>NextResponse.next()\<close>, \<open>new NextResponse(body, {status, headers})\<close> and
  \<open>NextResponse.redirect(url)\<close>. A redirect is built from the target URL alone: the
  source passes no body to it.
\<close>

datatype response =
    Next
  | Response string nat "(string \<times> string) list"
  | Redirect url

subsection \<open>The gate\<close>

text \<open>The two classification tests, lines 9 and 10 of the source.\<close>

definition isAdminUIPath :: "string \<Rightarrow> bool" where
  "isAdminUIPath path \<longleftrightarrow> startsWith path ''/admin'' \<and> path \<noteq> ''/admin/login''"

definition isAdminApiPath :: "string \<Rightarrow> bool" where
  "isAdminApiPath path \<longleftrightarrow>
     startsWith path ''/api/admin'' \<and> \<not> startsWith path ''/api/admin/login''"

text \<open>
  \<open>request.cookies.get('session')?.value\<close> is the value of the cookie or
  \<open>undefined\<close>; \<open>!!\<close> of it is true for a string that is not empty and false for
  the empty string and for \<open>undefined\<close>.
\<close>

definition sessionCookie :: "request \<Rightarrow> string option" where
  "sessionCookie req = cookies req ''session''"

fun truthy :: "string option \<Rightarrow> bool" where
  "truthy None = False"
| "truthy (Some v) = (v \<noteq> [])"

definition isAuthenticated :: "request \<Rightarrow> bool" where
  "isAuthenticated req = truthy (sessionCookie req)"

definition unauthorized :: response where
  "unauthorized =
     Response
       (JSON_stringify (JObject [(''error'', JString ''Unauthorized''),
                                 (''code'', JString ''not_authenticated'')]))
       401
       [(''Content-Type'', ''application/json'')]"

definition login_redirect :: "request \<Rightarrow> response" where
  "login_redirect req = Redirect (URL_new ''/admin/login'' (url req))"

text \<open>The value \<open>middleware\<close> returns, branch for branch as in the source.\<close>

definition middleware :: "request \<Rightarrow> response" where
  "middleware req =
     (let path = pathname (url req) in
      if \<not> isAdminUIPath path \<and> \<not> isAdminApiPath path then Next
      else if \<not> isAuthenticated req then
        (if isAdminApiPath path then unauthorized
         else if isAdminUIPath path then login_redirect req
         else Next)
      else Next)"

text \<open>
  Besides its result the function writes one line to the console, on the protected paths
  only (the public ones have returned before); nothing reads that line back.
\<close>

definition console_log :: "request \<Rightarrow> string list" where
  "console_log req =
     (let path = pathname (url req) in
      if \<not> isAdminUIPath path \<and> \<not> isAdminApiPath path then []
      else [''[Middleware] Path: '' @ path @ '', Auth: '' @
            (if isAuthenticated req then ''Yes'' else ''No'')])"

subsection \<open>The gate with the exceptions of its calls as values\<close>

text \<open>
  The function has no \<open>throw\<close> of its own; what could raise in it are the two
  constructors of a response that it calls. Their exceptions are values here.

  \<open>new NextResponse(body, {status, headers})\<close> is the constructor of a Fetch
  \<open>Response\<close>: it throws a \<open>RangeError\<close> for a status outside 200 to 599, a
  \<open>TypeError\<close> for a header whose name is not an HTTP token or whose value holds a
  NUL, a line feed or a carriage return, and a \<open>TypeError\<close> for a body given with a
  null-body status (101, 103, 204, 205, 304).
\<close>

datatype error = RangeError | TypeError

definition is_tchar :: "char \<Rightarrow> bool" where
  "is_tchar c =
     (let n = (of_char c :: nat) in
      (0x30 \<le> n \<and> n \<le> 0x39) \<or> (0x41 \<le> n \<and> n \<le> 0x5A) \<or> (0x61 \<le> n \<and> n \<le> 0x7A)
      \<or> n \<in> set [0x21, 0x23, 0x24, 0x25, 0x26, 0x27, 0x2A, 0x2B, 0x2D, 0x2E, 0x5E, 0x5F,
                   0x60, 0x7C, 0x7E])"

definition valid_header :: "string \<times> string \<Rightarrow> bool" where
  "valid_header h =
     (fst h \<noteq> [] \<and> list_all is_tchar (fst h)
      \<and> list_all (\<lambda>c. c \<noteq> CHR 0x00 \<and> c \<noteq> CHR 0x0A \<and> c \<noteq> CHR 0x0D) (snd h))"

definition NextResponse_new ::
  "string \<Rightarrow> nat \<Rightarrow> (string \<times> string) list \<Rightarrow> error + response" where
  "NextResponse_new body status headers =
     (if status < 200 \<or> 599 < status then Inl RangeError
      else if \<not> list_all valid_header headers then Inl TypeError
      else if status \<in> set [101, 103, 204, 205, 304] then Inl TypeError
      else Inr (Response body status headers))"

text \<open>
  \<open>NextResponse.redirect(url, status)\<close> throws a \<open>RangeError\<close> unless the status is
  one of 301, 302, 303, 307 and 308; called without a status, as in the source, it takes
  307. Its URL argument is an absolute URL already (the result of \<open>new URL\<close> on the URL
  of the request, which a request holds parsed), so the check of the URL cannot fail.
\<close>

definition NextResponse_redirect :: "url \<Rightarrow> nat \<Rightarrow> error + response" where
  "NextResponse_redirect target status =
     (if status \<in> set [301, 302, 303, 307, 308] then Inr (Redirect target)
      else Inl RangeError)"

text \<open>
  The function once more, branch for branch, with these two calls in the place of their
  results: \<open>Inl\<close> is an exception that reaches the caller, \<open>Inr\<close> a returned response.
\<close>

definition middleware_exn :: "request \<Rightarrow> error + response" where
  "middleware_exn req =
     (let path = pathname (url req) in
      if \<not> isAdminUIPath path \<and> \<not> isAdminApiPath path then Inr Next
      else if \<not> isAuthenticated req then
        (if isAdminApiPath path then
           NextResponse_new
             (JSON_stringify (JObject [(''error'', JString ''Unauthorized''),
                                       (''code'', JString ''not_authenticated'')]))
             401
             [(''Content-Type'', ''application/json'')]
         else if isAdminUIPath path then
           NextResponse_redirect (URL_new ''/admin/login'' (url req)) 307
         else Inr Next)
      else Inr Next)"

subsection \<open>Facts about the prefix test\<close>

lemma startsWith_append: "startsWith (p @ t) p"
  by (induction p) simp_all

lemma startsWith_iff: "startsWith s p \<longleftrightarrow> (\<exists>t. s = p @ t)"
proof (induction s p rule: startsWith.induct)
  case (1 s)
  show ?case by simp
next
  case (2 c cs)
  show ?case by simp
next
  case (3 x xs c cs)
  then show ?case by auto
qed

lemma startsWith_trans:
  "startsWith s p \<Longrightarrow> startsWith p q \<Longrightarrow> startsWith s q"
  by (auto simp: startsWith_iff)

text \<open>The two prefixes exclude each other: they differ in their second character.\<close>

lemma api_prefix_not_ui_prefix:
  "startsWith path ''/api/admin'' \<Longrightarrow> \<not> startsWith path ''/admin''"
  by (auto simp: startsWith_iff [of path "''/api/admin''"])

lemma ui_path_not_api_path: "isAdminUIPath path \<Longrightarrow> \<not> isAdminApiPath path"
  using api_prefix_not_ui_prefix by (auto simp: isAdminUIPath_def isAdminApiPath_def)

lemma api_login_not_ui_path:
  "startsWith path ''/api/admin/login'' \<Longrightarrow> \<not> isAdminUIPath path"
proof -
  assume "startsWith path ''/api/admin/login''"
  moreover have "startsWith ''/api/admin/login'' ''/api/admin''" by simp
  ultimately have "startsWith path ''/api/admin''" by (rule startsWith_trans)
  then show ?thesis
    using api_prefix_not_ui_prefix by (simp add: isAdminUIPath_def)
qed

subsection \<open>Facts about the cookie test\<close>

lemma isAuthenticated_iff:
  "isAuthenticated req \<longleftrightarrow> (\<exists>v. cookies req ''session'' = Some v \<and> v \<noteq> [])"
  by (cases "cookies req ''session''") (simp_all add: isAuthenticated_def sessionCookie_def)

lemma not_authenticated_iff:
  "\<not> isAuthenticated req \<longleftrightarrow>
     cookies req ''session'' = None \<or> cookies req ''session'' = Some []"
  by (cases "cookies req ''session''") (auto simp: isAuthenticated_def sessionCookie_def)

subsection \<open>The decision table\<close>

lemma unauthorized_eq:
  "unauthorized =
     Response ''{\"error\":\"Unauthorized\",\"code\":\"not_authenticated\"}'' 401
       [(''Content-Type'', ''application/json'')]"
  by (simp add: unauthorized_def JSON_quote_def JSON_escape_def)

lemma login_redirect_eq:
  "login_redirect req =
     Redirect \<lparr>origin = origin (url req), pathname = ''/admin/login'', search = []\<rparr>"
  by (simp add: login_redirect_def URL_new_def)

lemma middleware_public:
  "\<not> isAdminUIPath (pathname (url req)) \<Longrightarrow> \<not> isAdminApiPath (pathname (url req)) \<Longrightarrow>
   middleware req = Next"
  by (simp add: middleware_def)

lemma middleware_api:
  "isAdminApiPath (pathname (url req)) \<Longrightarrow>
   middleware req = (if isAuthenticated req then Next else unauthorized)"
  by (simp add: middleware_def)

lemma middleware_ui:
  "isAdminUIPath (pathname (url req)) \<Longrightarrow>
   middleware req = (if isAuthenticated req then Next else login_redirect req)"
  using ui_path_not_api_path [of "pathname (url req)"] by (simp add: middleware_def)

subsection \<open>The two constructors on the arguments of the gate\<close>

lemma content_type_header_valid: "valid_header (''Content-Type'', ''application/json'')"
  by (simp add: valid_header_def is_tchar_def)

lemma NextResponse_new_unauthorized:
  "NextResponse_new
     (JSON_stringify (JObject [(''error'', JString ''Unauthorized''),
                               (''code'', JString ''not_authenticated'')]))
     401 [(''Content-Type'', ''application/json'')] = Inr unauthorized"
  using content_type_header_valid
  by (simp add: NextResponse_new_def unauthorized_def)

lemma NextResponse_redirect_login:
  "NextResponse_redirect (URL_new ''/admin/login'' (url req)) 307 = Inr (login_redirect req)"
  by (simp add: NextResponse_redirect_def login_redirect_def)

lemma middleware_exn_returns: "middleware_exn req = Inr (middleware req)"
  unfolding middleware_exn_def middleware_def Let_def
    NextResponse_new_unauthorized NextResponse_redirect_login
  by simp

section \<open>The claims\<close>

subsection \<open>C1: paths that continue the \<open>/admin\<close> prefix\<close>

text \<open>
  C1, as amended. The gate tests the UI prefix with \<open>startsWith\<close> alone, without
  asking for a separator after it. So every path that continues \<open>/admin\<close>, with
  or without a separator (\<open>/adminSomethingElse\<close>, \<open>/admin2\<close>, \<open>/admin.json\<close>),
  other than \<open>/admin/login\<close> itself, is a protected UI path: the gate passes the
  request through when the \<open>session\<close> cookie is present with a value that is not
  empty, and redirects it to \<open>/admin/login\<close> otherwise.
\<close>

theorem admin_prefix_continuation_protected:
  assumes "pathname (url req) = ''/admin'' @ rest"
    and "rest \<noteq> ''/login''"
  shows "isAdminUIPath (pathname (url req))
         \<and> middleware req =
             (if \<exists>v. cookies req ''session'' = Some v \<and> v \<noteq> [] then Next
              else Redirect \<lparr>origin = origin (url req), pathname = ''/admin/login'',
                              search = []\<rparr>)"
proof -
  from assms have ui: "isAdminUIPath (pathname (url req))"
    by (simp add: isAdminUIPath_def)
  then have "middleware req = (if isAuthenticated req then Next else login_redirect req)"
    by (rule middleware_ui)
  with ui show ?thesis
    by (simp add: isAuthenticated_iff login_redirect_eq)
qed

theorem admin_prefix_continuation_protected_witness:
  "''/admin2'' = ''/admin'' @ ''2'' \<and> ''2'' \<noteq> ''/login''
   \<and> isAdminUIPath ''/admin2''
   \<and> middleware \<lparr>url = \<lparr>origin = ''https://blog.example'', pathname = ''/admin2'',
                        search = []\<rparr>,
                  cookies = map_of []\<rparr> =
       Redirect \<lparr>origin = ''https://blog.example'', pathname = ''/admin/login'', search = []\<rparr>"
  using admin_prefix_continuation_protected
    [of "\<lparr>url = \<lparr>origin = ''https://blog.example'', pathname = ''/admin2'',
                   search = []\<rparr>,
             cookies = map_of []\<rparr>" "''2''"]
  by simp

text \<open>
  C1, as written, says that the gate passes \<open>/adminSomethingElse\<close>, and every other
  path that continues \<open>/admin\<close> without a separator, through for every cookie state
  and does not classify it as a protected UI path. For a request without cookies the
  function classifies \<open>/adminSomethingElse\<close> and \<open>/admin.json\<close> as protected UI
  paths and returns the redirect for both.
\<close>

theorem admin_sibling_path_counterexample:
  "isAdminUIPath ''/adminSomethingElse''
   \<and> middleware \<lparr>url = \<lparr>origin = ''https://blog.example'', pathname = ''/adminSomethingElse'',
                        search = []\<rparr>,
                  cookies = map_of []\<rparr> \<noteq> Next
   \<and> middleware \<lparr>url = \<lparr>origin = ''https://blog.example'', pathname = ''/adminSomethingElse'',
                        search = []\<rparr>,
                  cookies = map_of []\<rparr> =
       Redirect \<lparr>origin = ''https://blog.example'', pathname = ''/admin/login'', search = []\<rparr>
   \<and> isAdminUIPath ''/admin.json''
   \<and> middleware \<lparr>url = \<lparr>origin = ''https://blog.example'', pathname = ''/admin.json'',
                        search = []\<rparr>,
                  cookies = map_of []\<rparr> \<noteq> Next
   \<and> middleware \<lparr>url = \<lparr>origin = ''https://blog.example'', pathname = ''/admin.json'',
                        search = []\<rparr>,
                  cookies = map_of []\<rparr> =
       Redirect \<lparr>origin = ''https://blog.example'', pathname = ''/admin/login'', search = []\<rparr>"
  by (simp add: middleware_def isAdminUIPath_def isAdminApiPath_def isAuthenticated_def
      sessionCookie_def login_redirect_def URL_new_def)

subsection \<open>C2: protected API path without a session\<close>

text \<open>
  C2. For every request whose path starts with \<open>/api/admin\<close> and does not start with
  \<open>/api/admin/login\<close>, and whose \<open>session\<close> cookie is absent or empty, the gate
  returns a response with status 401, the JSON body
  \<open>{"error":"Unauthorized","code":"not_authenticated"}\<close> and the header
  \<open>Content-Type: application/json\<close>.
\<close>

theorem protected_api_unauthenticated:
  assumes "startsWith (pathname (url req)) ''/api/admin''"
    and "\<not> startsWith (pathname (url req)) ''/api/admin/login''"
    and "cookies req ''session'' = None \<or> cookies req ''session'' = Some []"
  shows "middleware req =
     Response ''{\"error\":\"Unauthorized\",\"code\":\"not_authenticated\"}'' 401
       [(''Content-Type'', ''application/json'')]"
proof -
  from assms(1,2) have "isAdminApiPath (pathname (url req))"
    by (simp add: isAdminApiPath_def)
  moreover from assms(3) have "\<not> isAuthenticated req"
    by (simp add: not_authenticated_iff)
  ultimately show ?thesis
    by (simp add: middleware_api unauthorized_eq)
qed

theorem protected_api_unauthenticated_witness:
  "startsWith ''/api/admin/blogs'' ''/api/admin''
   \<and> \<not> startsWith ''/api/admin/blogs'' ''/api/admin/login''
   \<and> middleware \<lparr>url = \<lparr>origin = ''https://blog.example'', pathname = ''/api/admin/blogs'',
                        search = []\<rparr>,
                  cookies = map_of []\<rparr> =
     Response ''{\"error\":\"Unauthorized\",\"code\":\"not_authenticated\"}'' 401
       [(''Content-Type'', ''application/json'')]"
  using protected_api_unauthenticated
    [of "\<lparr>url = \<lparr>origin = ''https://blog.example'', pathname = ''/api/admin/blogs'',
                   search = []\<rparr>,
             cookies = map_of []\<rparr>"]
  by simp

subsection \<open>C3: protected UI path without a session\<close>

text \<open>
  C3. For every request whose path starts with \<open>/admin\<close> and is not exactly
  \<open>/admin/login\<close>, and whose \<open>session\<close> cookie is absent or empty, the gate returns
  a redirect to \<open>/admin/login\<close> (on the origin of the request, without a query); the
  result is a redirect, not a response with a body.
\<close>

theorem protected_ui_unauthenticated:
  assumes "startsWith (pathname (url req)) ''/admin''"
    and "pathname (url req) \<noteq> ''/admin/login''"
    and "cookies req ''session'' = None \<or> cookies req ''session'' = Some []"
  shows "middleware req =
           Redirect \<lparr>origin = origin (url req), pathname = ''/admin/login'', search = []\<rparr>
         \<and> middleware req \<noteq> Response body status headers"
proof -
  from assms(1,2) have "isAdminUIPath (pathname (url req))"
    by (simp add: isAdminUIPath_def)
  moreover from assms(3) have "\<not> isAuthenticated req"
    by (simp add: not_authenticated_iff)
  ultimately show ?thesis
    by (simp add: middleware_ui login_redirect_eq)
qed

theorem protected_ui_unauthenticated_witness:
  "startsWith ''/admin/dashboard'' ''/admin''
   \<and> ''/admin/dashboard'' \<noteq> ''/admin/login''
   \<and> middleware \<lparr>url = \<lparr>origin = ''https://blog.example'', pathname = ''/admin/dashboard'',
                        search = ''?tab=posts''\<rparr>,
                  cookies = map_of [(''session'', [])]\<rparr> =
     Redirect \<lparr>origin = ''https://blog.example'', pathname = ''/admin/login'', search = []\<rparr>"
  using protected_ui_unauthenticated
    [of "\<lparr>url = \<lparr>origin = ''https://blog.example'', pathname = ''/admin/dashboard'',
                   search = ''?tab=posts''\<rparr>,
             cookies = map_of [(''session'', [])]\<rparr>"]
  by simp

subsection \<open>C4: the authentication check\<close>

text \<open>
  C4. The gate counts a request as authenticated exactly when the \<open>session\<close> cookie is
  present with a value that is not empty. On every protected path (UI or API) any such
  value, whatever it is, makes the gate pass the request through, and a request without
  such a value is not passed through; a missing cookie and a present but empty one give
  the same result.
\<close>

theorem session_presence_check:
  "(isAuthenticated req \<longleftrightarrow> (\<exists>v. cookies req ''session'' = Some v \<and> v \<noteq> []))
   \<and> (isAdminUIPath (pathname (url req)) \<or> isAdminApiPath (pathname (url req)) \<longrightarrow>
        cookies req ''session'' = Some token \<longrightarrow> token \<noteq> [] \<longrightarrow> middleware req = Next)
   \<and> (isAdminUIPath (pathname (url req)) \<or> isAdminApiPath (pathname (url req)) \<longrightarrow>
        cookies req ''session'' = None \<or> cookies req ''session'' = Some [] \<longrightarrow>
        middleware req \<noteq> Next)
   \<and> middleware (req\<lparr>cookies := (cookies req)(''session'' := None)\<rparr>) =
     middleware (req\<lparr>cookies := (cookies req)(''session'' \<mapsto> [])\<rparr>)"
proof (intro conjI impI)
  show "isAuthenticated req \<longleftrightarrow> (\<exists>v. cookies req ''session'' = Some v \<and> v \<noteq> [])"
    by (rule isAuthenticated_iff)
next
  assume "isAdminUIPath (pathname (url req)) \<or> isAdminApiPath (pathname (url req))"
    and "cookies req ''session'' = Some token" and "token \<noteq> []"
  then show "middleware req = Next"
    by (auto simp: middleware_ui middleware_api isAuthenticated_iff)
next
  assume "isAdminUIPath (pathname (url req)) \<or> isAdminApiPath (pathname (url req))"
    and "cookies req ''session'' = None \<or> cookies req ''session'' = Some []"
  then show "middleware req \<noteq> Next"
    by (auto simp: middleware_ui middleware_api isAuthenticated_iff
        unauthorized_def login_redirect_def)
next
  let ?missing = "req\<lparr>cookies := (cookies req)(''session'' := None)\<rparr>"
  let ?empty = "req\<lparr>cookies := (cookies req)(''session'' \<mapsto> [])\<rparr>"
  have "\<not> isAuthenticated ?missing" and "\<not> isAuthenticated ?empty"
    by (simp_all add: not_authenticated_iff)
  then show "middleware ?missing = middleware ?empty"
    by (simp add: middleware_def Let_def login_redirect_def)
qed

theorem session_presence_check_witness:
  "isAdminApiPath ''/api/admin/blogs''
   \<and> middleware \<lparr>url = \<lparr>origin = ''https://blog.example'', pathname = ''/api/admin/blogs'',
                        search = []\<rparr>,
                  cookies = map_of [(''session'', ''forged'')]\<rparr> = Next"
  using session_presence_check
    [of "\<lparr>url = \<lparr>origin = ''https://blog.example'', pathname = ''/api/admin/blogs'',
                   search = []\<rparr>,
             cookies = map_of [(''session'', ''forged'')]\<rparr>" "''forged''"]
  by (simp add: isAdminApiPath_def)

subsection \<open>C5: the login page\<close>

text \<open>
  C5. For the exact path \<open>/admin/login\<close> the gate passes the request through,
  whatever the cookies are. In particular the target of the gate's own redirect, requested
  with any cookies, is passed through: the redirect cannot loop.
\<close>

theorem ui_login_page_passes:
  "(pathname (url req) = ''/admin/login'' \<longrightarrow> middleware req = Next)
   \<and> (login_redirect req = Redirect target \<longrightarrow>
        middleware \<lparr>url = target, cookies = cs\<rparr> = Next)"
proof -
  have login_public: "\<not> isAdminUIPath ''/admin/login'' \<and> \<not> isAdminApiPath ''/admin/login''"
    by (simp add: isAdminUIPath_def isAdminApiPath_def)
  have exact: "middleware req = Next" if "pathname (url req) = ''/admin/login''"
    using that login_public by (simp add: middleware_public)
  have no_loop: "middleware \<lparr>url = target, cookies = cs\<rparr> = Next"
    if "login_redirect req = Redirect target"
  proof -
    from that have "pathname target = ''/admin/login''"
      by (auto simp: login_redirect_def URL_new_def)
    with login_public show ?thesis
      by (simp add: middleware_public)
  qed
  from exact no_loop show ?thesis by blast
qed

theorem ui_login_page_passes_witness:
  "middleware \<lparr>url = \<lparr>origin = ''https://blog.example'', pathname = ''/admin/login'',
                      search = []\<rparr>,
                cookies = map_of []\<rparr> = Next"
  using ui_login_page_passes
    [of "\<lparr>url = \<lparr>origin = ''https://blog.example'', pathname = ''/admin/login'',
                   search = []\<rparr>,
             cookies = map_of []\<rparr>"]
  by simp

subsection \<open>C6: the login endpoint of the API\<close>

text \<open>
  C6. For \<open>/api/admin/login\<close> and for every path that starts with
  \<open>/api/admin/login\<close> the gate passes the request through, whatever the cookies are.
\<close>

theorem api_login_passes:
  assumes "startsWith (pathname (url req)) ''/api/admin/login''"
  shows "middleware req = Next"
proof -
  from assms have "\<not> isAdminApiPath (pathname (url req))"
    by (simp add: isAdminApiPath_def)
  moreover from assms have "\<not> isAdminUIPath (pathname (url req))"
    by (rule api_login_not_ui_path)
  ultimately show ?thesis
    by (simp add: middleware_public)
qed

theorem api_login_passes_witness:
  "startsWith ''/api/admin/login'' ''/api/admin/login''
   \<and> middleware \<lparr>url = \<lparr>origin = ''https://blog.example'', pathname = ''/api/admin/login'',
                        search = []\<rparr>,
                  cookies = map_of []\<rparr> = Next"
  using api_login_passes
    [of "\<lparr>url = \<lparr>origin = ''https://blog.example'', pathname = ''/api/admin/login'',
                   search = []\<rparr>,
             cookies = map_of []\<rparr>"]
  by simp

subsection \<open>C7: public paths\<close>

text \<open>
  C7. For every path that is neither a protected UI path (starts with \<open>/admin\<close> and is
  not \<open>/admin/login\<close>) nor a protected API path (starts with \<open>/api/admin\<close> and not
  with \<open>/api/admin/login\<close>) the gate passes the request through, whatever the cookies
  are.
\<close>

theorem public_path_passes:
  assumes "pathname (url req) = path"
    and "\<not> (startsWith path ''/admin'' \<and> path \<noteq> ''/admin/login'')"
    and "\<not> (startsWith path ''/api/admin'' \<and> \<not> startsWith path ''/api/admin/login'')"
  shows "middleware req = Next"
  using assms by (simp add: middleware_public isAdminUIPath_def isAdminApiPath_def)

theorem public_path_passes_witness:
  "\<not> (startsWith ''/api/blogs/hello'' ''/admin'' \<and> ''/api/blogs/hello'' \<noteq> ''/admin/login'')
   \<and> \<not> (startsWith ''/api/blogs/hello'' ''/api/admin''
         \<and> \<not> startsWith ''/api/blogs/hello'' ''/api/admin/login'')
   \<and> middleware \<lparr>url = \<lparr>origin = ''https://blog.example'', pathname = ''/api/blogs/hello'',
                        search = []\<rparr>,
                  cookies = map_of [(''theme'', ''dark'')]\<rparr> = Next"
  using public_path_passes
    [of "\<lparr>url = \<lparr>origin = ''https://blog.example'', pathname = ''/api/blogs/hello'',
                   search = []\<rparr>,
             cookies = map_of [(''theme'', ''dark'')]\<rparr>" "''/api/blogs/hello''"]
  by simp

subsection \<open>C8: the gate is total and raises nothing\<close>

text \<open>
  C8. For every request the gate returns a response and raises no exception to its caller:
  with the exceptions of the calls it makes as values, its run never ends in one, because
  401 is a status that a response with a body may have, \<open>Content-Type\<close> with
  \<open>application/json\<close> is a well-formed header, and 307 is a redirect status. The
  response it returns is one of three: pass-through, the 401 JSON response, or the redirect
  to the login page. The three are different from one another, so it is exactly one of
  them.
\<close>

theorem gate_never_raises:
  "middleware_exn req \<noteq> Inl e
   \<and> (middleware_exn req = Inr Next
      \<or> middleware_exn req =
          Inr (Response ''{\"error\":\"Unauthorized\",\"code\":\"not_authenticated\"}'' 401
                 [(''Content-Type'', ''application/json'')])
      \<or> middleware_exn req =
          Inr (Redirect \<lparr>origin = origin (url req), pathname = ''/admin/login'',
                         search = []\<rparr>))
   \<and> middleware_exn req = Inr (middleware req)
   \<and> distinct
       [Next,
        Response ''{\"error\":\"Unauthorized\",\"code\":\"not_authenticated\"}'' 401
          [(''Content-Type'', ''application/json'')],
        Redirect \<lparr>origin = origin (url req), pathname = ''/admin/login'', search = []\<rparr>]"
proof -
  have returns: "middleware_exn req = Inr (middleware req)"
    by (rule middleware_exn_returns)
  have "middleware req = Next \<or> middleware req = unauthorized
        \<or> middleware req = login_redirect req"
    by (simp add: middleware_def Let_def)
  then have range: "middleware req = Next
      \<or> middleware req =
          Response ''{\"error\":\"Unauthorized\",\"code\":\"not_authenticated\"}'' 401
            [(''Content-Type'', ''application/json'')]
      \<or> middleware req =
          Redirect \<lparr>origin = origin (url req), pathname = ''/admin/login'', search = []\<rparr>"
    by (simp add: unauthorized_eq login_redirect_eq)
  from returns range show ?thesis
    by auto
qed

subsection \<open>C9: what the decision depends on\<close>

text \<open>
  C9. The decision depends on the path and on whether a \<open>session\<close> cookie with a
  value that is not empty is present, and on nothing else in the cookies: two requests
  with the same path that both carry such a cookie, or both carry none, get the same
  decision, whatever the value of the token and whatever other cookies they carry. The
  decision is the same response outright when the two requests were made to the same
  origin; in general the redirect is the same redirect to \<open>/admin/login\<close>, made
  absolute on the origin of the request it answers.
\<close>

theorem decision_depends_on_path_and_presence:
  assumes "pathname (url r1) = pathname (url r2)"
    and "(\<exists>v. cookies r1 ''session'' = Some v \<and> v \<noteq> []) \<longleftrightarrow>
         (\<exists>v. cookies r2 ''session'' = Some v \<and> v \<noteq> [])"
  shows "middleware r2 =
           (case middleware r1 of
              Redirect target \<Rightarrow> Redirect (target\<lparr>origin := origin (url r2)\<rparr>)
            | decision \<Rightarrow> decision)
         \<and> (origin (url r1) = origin (url r2) \<longrightarrow> middleware r1 = middleware r2)"
proof -
  let ?path = "pathname (url r2)"
  from assms(2) have auth: "isAuthenticated r1 = isAuthenticated r2"
    by (simp add: isAuthenticated_iff)
  consider (pub) "\<not> isAdminUIPath ?path" "\<not> isAdminApiPath ?path"
    | (api) "isAdminApiPath ?path"
    | (ui) "isAdminUIPath ?path"
    by blast
  then show ?thesis
  proof cases
    case pub
    then have "middleware r1 = Next" and "middleware r2 = Next"
      using assms(1) by (simp_all add: middleware_public)
    then show ?thesis by simp
  next
    case api
    then have "middleware r1 = (if isAuthenticated r2 then Next else unauthorized)"
      and "middleware r2 = (if isAuthenticated r2 then Next else unauthorized)"
      using assms(1) auth by (simp_all add: middleware_api)
    then show ?thesis by (simp add: unauthorized_def)
  next
    case ui
    then have "middleware r1 = (if isAuthenticated r2 then Next else login_redirect r1)"
      and "middleware r2 = (if isAuthenticated r2 then Next else login_redirect r2)"
      using assms(1) auth by (simp_all add: middleware_ui)
    then show ?thesis by (simp add: login_redirect_eq)
  qed
qed

theorem decision_depends_on_path_and_presence_witness:
  "middleware \<lparr>url = \<lparr>origin = ''https://blog.example'', pathname = ''/admin/dashboard'',
                      search = []\<rparr>,
                cookies = map_of [(''session'', ''abc''), (''theme'', ''dark'')]\<rparr> =
   middleware \<lparr>url = \<lparr>origin = ''https://blog.example'', pathname = ''/admin/dashboard'',
                      search = ''?page=2''\<rparr>,
                cookies = map_of [(''session'', ''forged'')]\<rparr>"
proof -
  let ?r1 = "\<lparr>url = \<lparr>origin = ''https://blog.example'', pathname = ''/admin/dashboard'',
                      search = []\<rparr>,
                cookies = map_of [(''session'', ''abc''), (''theme'', ''dark'')]\<rparr>"
  let ?r2 = "\<lparr>url = \<lparr>origin = ''https://blog.example'', pathname = ''/admin/dashboard'',
                      search = ''?page=2''\<rparr>,
                cookies = map_of [(''session'', ''forged'')]\<rparr>"
  have same_path: "pathname (url ?r1) = pathname (url ?r2)"
    by simp
  have same_presence:
    "(\<exists>v. cookies ?r1 ''session'' = Some v \<and> v \<noteq> []) \<longleftrightarrow>
     (\<exists>v. cookies ?r2 ''session'' = Some v \<and> v \<noteq> [])"
    by simp
  have "origin (url ?r1) = origin (url ?r2) \<longrightarrow> middleware ?r1 = middleware ?r2"
    by (rule decision_depends_on_path_and_presence
        [OF same_path same_presence, THEN conjunct2])
  then show ?thesis
    by simp
qed

subsection \<open>C10: sub-paths of the two login paths\<close>

text \<open>
  C10. On the UI side only the exact path \<open>/admin/login\<close> is exempt: every path that
  continues it, such as \<open>/admin/login/reset\<close>, is a protected UI path and is redirected
  to \<open>/admin/login\<close> when the request has no \<open>session\<close> cookie with a value; among
  the paths that start with \<open>/admin\<close>, such a request is passed through for
  \<open>/admin/login\<close> alone. The API side differs: every path that continues
  \<open>/api/admin/login\<close> is passed through.
\<close>

theorem login_subpaths_asymmetric:
  "(rest \<noteq> [] \<longrightarrow> isAdminUIPath (''/admin/login'' @ rest))
   \<and> (rest \<noteq> [] \<longrightarrow> pathname (url req) = ''/admin/login'' @ rest \<longrightarrow>
        cookies req ''session'' = None \<or> cookies req ''session'' = Some [] \<longrightarrow>
        middleware req =
          Redirect \<lparr>origin = origin (url req), pathname = ''/admin/login'', search = []\<rparr>)
   \<and> (startsWith (pathname (url req)) ''/admin'' \<longrightarrow>
        cookies req ''session'' = None \<or> cookies req ''session'' = Some [] \<longrightarrow>
        (middleware req = Next \<longleftrightarrow> pathname (url req) = ''/admin/login''))
   \<and> (pathname (url req') = ''/api/admin/login'' @ rest \<longrightarrow> middleware req' = Next)"
proof -
  have ui: "isAdminUIPath (''/admin/login'' @ rest)" if "rest \<noteq> []"
    using that by (simp add: isAdminUIPath_def)
  have redirected: "middleware req =
      Redirect \<lparr>origin = origin (url req), pathname = ''/admin/login'', search = []\<rparr>"
    if "rest \<noteq> []" and "pathname (url req) = ''/admin/login'' @ rest"
      and "cookies req ''session'' = None \<or> cookies req ''session'' = Some []"
  proof -
    from that(1,2) ui have "isAdminUIPath (pathname (url req))" by simp
    moreover from that(3) have "\<not> isAuthenticated req"
      by (simp add: not_authenticated_iff)
    ultimately show ?thesis
      by (simp add: middleware_ui login_redirect_eq)
  qed
  have only_exact: "middleware req = Next \<longleftrightarrow> pathname (url req) = ''/admin/login''"
    if "startsWith (pathname (url req)) ''/admin''"
      and "cookies req ''session'' = None \<or> cookies req ''session'' = Some []"
  proof (cases "pathname (url req) = ''/admin/login''")
    case True
    then have "\<not> isAdminUIPath (pathname (url req))"
      and "\<not> isAdminApiPath (pathname (url req))"
      by (simp_all add: isAdminUIPath_def isAdminApiPath_def)
    with True show ?thesis
      by (simp add: middleware_public)
  next
    case False
    with that(1) have "isAdminUIPath (pathname (url req))"
      by (simp add: isAdminUIPath_def)
    moreover from that(2) have "\<not> isAuthenticated req"
      by (simp add: not_authenticated_iff)
    ultimately show ?thesis
      using False by (simp add: middleware_ui login_redirect_eq)
  qed
  have api: "middleware req' = Next" if "pathname (url req') = ''/api/admin/login'' @ rest"
  proof -
    from that have "startsWith (pathname (url req')) ''/api/admin/login''"
      using startsWith_append [of "''/api/admin/login''" rest] by simp
    then have "\<not> isAdminApiPath (pathname (url req'))"
      and "\<not> isAdminUIPath (pathname (url req'))"
      by (simp_all add: isAdminApiPath_def api_login_not_ui_path)
    then show ?thesis
      by (simp add: middleware_public)
  qed
  from ui redirected only_exact api show ?thesis by blast
qed

theorem login_subpaths_asymmetric_witness:
  "isAdminUIPath ''/admin/login/reset''
   \<and> middleware \<lparr>url = \<lparr>origin = ''https://blog.example'', pathname = ''/admin/login/reset'',
                        search = []\<rparr>,
                  cookies = map_of []\<rparr> =
       Redirect \<lparr>origin = ''https://blog.example'', pathname = ''/admin/login'', search = []\<rparr>
   \<and> middleware \<lparr>url = \<lparr>origin = ''https://blog.example'',
                        pathname = ''/api/admin/login/reset'', search = []\<rparr>,
                  cookies = map_of []\<rparr> = Next"
  using login_subpaths_asymmetric
    [of "''/reset''"
        "\<lparr>url = \<lparr>origin = ''https://blog.example'', pathname = ''/admin/login/reset'',
                   search = []\<rparr>,
             cookies = map_of []\<rparr>"
        "\<lparr>url = \<lparr>origin = ''https://blog.example'', pathname = ''/api/admin/login/reset'',
                   search = []\<rparr>,
             cookies = map_of []\<rparr>"]
  by simp

end
